theory Spec2Isabelle
  imports Complex_Main
begin

section \<open>Python values, exceptions and strings\<close>

text \<open>
  The two tools (\<^verbatim>\<open>compliance_batch_processor.py\<close>, class ComplianceChecker, and
  \<^verbatim>\<open>therapy_compliance_processor.py\<close>, class TherapyNoteProcessor) work on the
  dictionary that \<^verbatim>\<open>json.loads\<close> builds from the language model's answer. Nothing in
  the code checks the shape of that dictionary, so it is modelled as an untyped Python
  value: every access can raise, and every raise is a branch of the model.

  A Python \<^verbatim>\<open>str\<close> is modelled as a \<^typ>\<open>string\<close> whose characters are the code
  points below 256; JSON numbers are rationals (NaN and the infinities are left out).
\<close>

datatype exn =
    AttributeError
  | KeyError string
  | TypeError
  | ValueError
  | JSONDecodeError
  | FileNotFoundError string
  | SameFileError
  | IndexError
  | LibraryError

datatype pyval =
    PNone
  | PBool bool
  | PNum rat
  | PStr string
  | PList "pyval list"
  | PDict "(string \<times> pyval) list"

text \<open>Truth value testing, as \<^verbatim>\<open>if x:\<close> and \<^verbatim>\<open>x or y\<close> do it.\<close>

fun truthy :: "pyval \<Rightarrow> bool" where
  "truthy PNone = False"
| "truthy (PBool b) = b"
| "truthy (PNum n) = (n \<noteq> 0)"
| "truthy (PStr s) = (s \<noteq> [])"
| "truthy (PList xs) = (xs \<noteq> [])"
| "truthy (PDict d) = (d \<noteq> [])"

text \<open>\<^verbatim>\<open>d.get(key, default)\<close>: only a dict has the method.\<close>

fun dict_get :: "pyval \<Rightarrow> string \<Rightarrow> pyval \<Rightarrow> exn + pyval" where
  "dict_get (PDict d) k dflt = (case map_of d k of None \<Rightarrow> Inr dflt | Some v \<Rightarrow> Inr v)"
| "dict_get _ k dflt = Inl AttributeError"

text \<open>
  \<^verbatim>\<open>d[key]\<close> with a string key: KeyError on a dict without the key, TypeError on a value
  that a string cannot index (None, numbers, lists, strings).
\<close>

fun dict_item :: "pyval \<Rightarrow> string \<Rightarrow> exn + pyval" where
  "dict_item (PDict d) k = (case map_of d k of None \<Rightarrow> Inl (KeyError k) | Some v \<Rightarrow> Inr v)"
| "dict_item _ k = Inl TypeError"

lemma size_in_list: "z \<in> set xs \<Longrightarrow> size (z::pyval) < Suc (size_list size xs)"
  by (induction xs) auto

lemma size_in_dict:
  "map_of d k = Some (v::pyval) \<Longrightarrow> size v < Suc (size_list (size_prod (\<lambda>_. 0) size) d)"
  by (induction d) (auto split: if_splits)

text \<open>
  Python's \<^verbatim>\<open>==\<close> on JSON values: booleans compare as the numbers 0 and 1, lists
  element by element, dicts key by key whatever the order of their entries.
\<close>

function py_eq :: "pyval \<Rightarrow> pyval \<Rightarrow> bool" where
  "py_eq PNone y = (y = PNone)"
| "py_eq (PBool a) y =
     (case y of PBool b \<Rightarrow> a = b | PNum n \<Rightarrow> of_bool a = n | _ \<Rightarrow> False)"
| "py_eq (PNum m) y =
     (case y of PBool b \<Rightarrow> m = of_bool b | PNum n \<Rightarrow> m = n | _ \<Rightarrow> False)"
| "py_eq (PStr s) y = (y = PStr s)"
| "py_eq (PList xs) y = (case y of PList ys \<Rightarrow> list_all2 py_eq xs ys | _ \<Rightarrow> False)"
| "py_eq (PDict d) y =
     (case y of
        PDict e \<Rightarrow>
          length (remdups (map fst d)) = length (remdups (map fst e)) \<and>
          list_all (\<lambda>k. case map_of d k of
                           None \<Rightarrow> False
                         | Some u \<Rightarrow> (case map_of e k of None \<Rightarrow> False | Some v \<Rightarrow> py_eq u v))
                   (map fst d)
      | _ \<Rightarrow> False)"
  by pat_completeness auto
termination
proof (relation "measure (\<lambda>(x, y). size x)")
  show "wf (measure (\<lambda>(x, y::pyval). size (x::pyval)))" by simp
next
  fix xs :: "pyval list" and y z yb :: pyval
  assume "z \<in> set xs"
  then show "((z, yb), PList xs, y) \<in> measure (\<lambda>(x, y). size x)"
    using size_in_list [of z xs] by simp
next
  fix d :: "(string \<times> pyval) list" and y x2 x2a :: pyval and x :: string
  assume "map_of d x = Some x2"
  then show "((x2, x2a), PDict d, y) \<in> measure (\<lambda>(x, y). size x)"
    using size_in_dict [of d x x2] by simp
qed

text \<open>\<^verbatim>\<open>x < 2\<close>: defined on numbers and booleans, TypeError on everything else.\<close>

fun py_lt2 :: "pyval \<Rightarrow> exn + bool" where
  "py_lt2 (PNum n) = Inr (n < 2)"
| "py_lt2 (PBool b) = Inr True"
| "py_lt2 _ = Inl TypeError"

subsection \<open>String methods\<close>

definition is_space :: "char \<Rightarrow> bool" where
  \<comment> \<open>\<^verbatim>\<open>str.isspace\<close>, which is also the class \<^verbatim>\<open>\s\<close> of \<^verbatim>\<open>re\<close>, below code point 256\<close>
  "is_space c \<longleftrightarrow>
     (of_char c :: nat) \<in> {9, 10, 11, 12, 13, 28, 29, 30, 31, 32, 133, 160}"

definition is_digit :: "char \<Rightarrow> bool" where
  \<comment> \<open>the class \<^verbatim>\<open>\d\<close> below code point 256\<close>
  "is_digit c \<longleftrightarrow> c \<in> set ''0123456789''"

definition startswith :: "string \<Rightarrow> string \<Rightarrow> bool" where
  "startswith s p \<longleftrightarrow> take (length p) s = p"

text \<open>\<^verbatim>\<open>needle in s\<close>\<close>

fun str_contains :: "string \<Rightarrow> string \<Rightarrow> bool" where
  "str_contains needle [] = (needle = [])"
| "str_contains needle (c # cs) = (startswith (c # cs) needle \<or> str_contains needle cs)"

text \<open>
  \<^verbatim>\<open>s.replace(old, new)\<close> for a non-empty \<^verbatim>\<open>old\<close> (the code only replaces
  \<^verbatim>\<open>'.pdf'\<close>): every occurrence, left to right, without overlap. The counter is the
  number of characters of the occurrence just replaced that are still to be skipped.
\<close>

fun replace_from :: "nat \<Rightarrow> string \<Rightarrow> string \<Rightarrow> string \<Rightarrow> string" where
  "replace_from skip old new [] = []"
| "replace_from (Suc k) old new (c # cs) = replace_from k old new cs"
| "replace_from 0 old new (c # cs) =
     (if startswith (c # cs) old then new @ replace_from (length old - 1) old new cs
      else c # replace_from 0 old new cs)"

definition str_replace :: "string \<Rightarrow> string \<Rightarrow> string \<Rightarrow> string" where
  "str_replace s old new = replace_from 0 old new s"

text \<open>\<^verbatim>\<open>s.strip()\<close> and \<^verbatim>\<open>s.split('\n')\<close>\<close>

definition str_strip :: "string \<Rightarrow> string" where
  "str_strip s = rev (dropWhile is_space (rev (dropWhile is_space s)))"

fun split_lines :: "string \<Rightarrow> string list" where
  "split_lines [] = [[]]"
| "split_lines (c # cs) =
     (case split_lines cs of
        [] \<Rightarrow> (if c = CHR 0x0A then [[], []] else [[c]])
      | l # ls \<Rightarrow> (if c = CHR 0x0A then [] # l # ls else (c # l) # ls))"

subsection \<open>The two regular expressions\<close>

text \<open>
  The date pattern of both tools is
  \<^verbatim>\<open>\d{2}/\d{2}/\d{4}\s+\d{1,2}:\d{2}\s+[ap]m\<close>. Each piece is a matcher that consumes a
  prefix of the rest of the text and returns what it consumed. The pattern needs no
  backtracking: \<^verbatim>\<open>\s+\<close> is followed by a digit or a letter, never by white space, and
  \<^verbatim>\<open>\d{1,2}\<close> is followed by a colon.
\<close>

type_synonym matcher = "string \<Rightarrow> (string \<times> string) option"

definition m_digits :: "nat \<Rightarrow> matcher" where
  "m_digits n s =
     (if n \<le> length s \<and> list_all is_digit (take n s) then Some (take n s, drop n s) else None)"

definition m_char :: "char \<Rightarrow> matcher" where
  "m_char c s = (case s of [] \<Rightarrow> None | d # ds \<Rightarrow> if d = c then Some ([d], ds) else None)"

definition m_spaces :: matcher where
  "m_spaces s =
     (if takeWhile is_space s = [] then None else Some (takeWhile is_space s, dropWhile is_space s))"

definition m_digits12 :: matcher where
  "m_digits12 s = (case m_digits 2 s of Some r \<Rightarrow> Some r | None \<Rightarrow> m_digits 1 s)"

definition m_ap :: matcher where
  "m_ap s =
     (case s of [] \<Rightarrow> None
      | d # ds \<Rightarrow> if d = CHR ''a'' \<or> d = CHR ''p'' then Some ([d], ds) else None)"

fun m_seq :: "matcher list \<Rightarrow> matcher" where
  "m_seq [] s = Some ([], s)"
| "m_seq (m # ms) s =
     (case m s of
        None \<Rightarrow> None
      | Some (a, rest) \<Rightarrow>
          (case m_seq ms rest of None \<Rightarrow> None | Some (b, rest') \<Rightarrow> Some (a @ b, rest')))"

definition date_pattern :: "matcher list" where
  "date_pattern =
     [m_digits 2, m_char CHR ''/'', m_digits 2, m_char CHR ''/'', m_digits 4, m_spaces,
      m_digits12, m_char CHR '':'', m_digits 2, m_spaces, m_ap, m_char CHR ''m'']"

text \<open>\<^verbatim>\<open>re.search(date_pattern, s)\<close>: the text of the leftmost match.\<close>

fun search_date :: "string \<Rightarrow> string option" where
  "search_date [] = None"
| "search_date (c # cs) =
     (case m_seq date_pattern (c # cs) of Some (m, _) \<Rightarrow> Some m | None \<Rightarrow> search_date cs)"

text \<open>
  \<^verbatim>\<open>re.findall(date_pattern, s)\<close>: all matches, left to right, without overlap. The
  counter skips the characters of the match just found.
\<close>

fun findall_from :: "nat \<Rightarrow> string \<Rightarrow> string list" where
  "findall_from skip [] = []"
| "findall_from (Suc k) (c # cs) = findall_from k cs"
| "findall_from 0 (c # cs) =
     (case m_seq date_pattern (c # cs) of
        Some (m, _) \<Rightarrow> m # findall_from (length m - 1) cs
      | None \<Rightarrow> findall_from 0 cs)"

definition findall_dates :: "string \<Rightarrow> string list" where
  "findall_dates s = findall_from 0 s"

text \<open>\<^verbatim>\<open>re.search\<close> raises TypeError when its subject is not a string.\<close>

fun re_search_date :: "pyval \<Rightarrow> exn + string option" where
  "re_search_date (PStr s) = Inr (search_date s)"
| "re_search_date _ = Inl TypeError"

text \<open>
  \<^verbatim>\<open>re.search(r'\{.*\}', content, re.DOTALL)\<close>: with DOTALL the greedy \<^verbatim>\<open>.*\<close> runs to the
  last closing brace, so the match goes from the first opening brace to the last closing
  brace after it, and there is none when no closing brace follows the first opening one.
\<close>

definition search_braces :: "string \<Rightarrow> string option" where
  "search_braces content =
     (let from_open = dropWhile (\<lambda>c. c \<noteq> CHR 0x7B) content;
          upto_close = rev (dropWhile (\<lambda>c. c \<noteq> CHR 0x7D) (rev (drop 1 from_open)))
      in if from_open = [] \<or> upto_close = [] then None else Some (CHR 0x7B # upto_close))"

section \<open>The PDF library, seen from the orchestrator\<close>

text \<open>
  PyMuPDF is not part of the repository: the model takes it as a parameter. A page is a
  value of an arbitrary type \<open>'p\<close>; every call can raise. Coordinates are floats in the
  code and rationals here.
\<close>

record rect =
  x0 :: rat
  y0 :: rat
  x1 :: rat
  y1 :: rat

definition Rect :: "rat \<Rightarrow> rat \<Rightarrow> rat \<Rightarrow> rat \<Rightarrow> rect" where
  "Rect a b c d = \<lparr>x0 = a, y0 = b, x1 = c, y1 = d\<rparr>"

definition height :: "rect \<Rightarrow> rat" where
  \<comment> \<open>the library's \<^verbatim>\<open>Rect.height\<close>\<close>
  "height r = max 0 (y1 r - y0 r)"

definition width :: "rect \<Rightarrow> rat" where
  "width r = max 0 (x1 r - x0 r)"

type_synonym point = "rat \<times> rat"

text \<open>
  What the code passes as \<^verbatim>\<open>text=\<close>: a value taken from the analysis or from a regex
  match, or the f-string \<^verbatim>\<open>f"Rendered by: {signer_name}, {signer_credentials}"\<close> of two
  values of the analysis.
\<close>

datatype text_arg = Text pyval | RenderedBy pyval pyval

record 'p pdflib =
  search_for :: "'p \<Rightarrow> pyval \<Rightarrow> exn + rect list"
  redact_rect :: "'p \<Rightarrow> rect \<Rightarrow> exn + 'p"
  insert_text :: "'p \<Rightarrow> point \<Rightarrow> text_arg \<Rightarrow> rat \<Rightarrow> string \<Rightarrow> exn + 'p"
  get_pixmap :: "'p \<Rightarrow> rect \<Rightarrow> exn + ('p \<times> rect)"
  insert_image :: "'p \<Rightarrow> rect \<Rightarrow> ('p \<times> rect) \<Rightarrow> exn + 'p"
  page_rect :: "'p \<Rightarrow> rect"
  get_text :: "'p \<Rightarrow> exn + string"

text \<open>
  \<open>redact_rect\<close> is \<^verbatim>\<open>page.add_redact_annot(r)\<close> followed by
  \<^verbatim>\<open>page.apply_redactions()\<close>; \<open>insert_text\<close> takes the point, the text, the font size
  and the font name (the colour is black in every call); \<open>get_pixmap\<close> is called with
  \<^verbatim>\<open>dpi=150\<close>, and a pixmap is represented by whatever the library makes of the page and
  the clip.

  The calls that change a page, and the lines printed, are recorded in a trace, each
  tagged with the finding it was issued for and the page number.
\<close>

datatype kind = DateK | CptK | GoalsK | SupervisionK

datatype msg =
    Fixed_date string string
  | Fixed_cpt pyval pyval
  | Fixed_supervision pyval pyval
  | Error_fixing string exn
  | Verifying
  | Lcsw_warning
  | Found_dates "string list"
  | Verified_and_saved
  | Verification_failed

datatype event =
    Redact kind nat rect
  | InsertText kind nat point text_arg rat string
  | InsertImage kind nat rect
  | Print msg

fun changes_page :: "event \<Rightarrow> bool" where
  "changes_page (Print m) = False"
| "changes_page _ = True"

fun event_kind :: "event \<Rightarrow> kind option" where
  "event_kind (Redact k n r) = Some k"
| "event_kind (InsertText k n p t fs fn) = Some k"
| "event_kind (InsertImage k n r) = Some k"
| "event_kind (Print m) = None"

text \<open>A trace without any redaction or insertion issued for the CPT finding.\<close>

definition cpt_free :: "event list \<Rightarrow> bool" where
  "cpt_free evs \<longleftrightarrow> list_all (\<lambda>e. event_kind e \<noteq> Some CptK) evs"

subsection \<open>The state of one patch session\<close>

record 'p pst =
  doc :: "'p list"
  fixed :: bool
  trace :: "event list"

type_synonym 'p step = "'p pst \<Rightarrow> exn option \<times> 'p pst"

definition ok :: "'p step" where
  "ok st = (None, st)"

definition ebind :: "exn + 'a \<Rightarrow> ('a \<Rightarrow> exn + 'b) \<Rightarrow> exn + 'b" where
  "ebind v f = (case v of Inl e \<Rightarrow> Inl e | Inr x \<Rightarrow> f x)"

definition lift :: "exn + 'a \<Rightarrow> ('a \<Rightarrow> 'p step) \<Rightarrow> 'p step" where
  "lift v f st = (case v of Inl e \<Rightarrow> (Some e, st) | Inr x \<Rightarrow> f x st)"

fun seq :: "('s \<Rightarrow> exn option \<times> 's) list \<Rightarrow> 's \<Rightarrow> exn option \<times> 's" where
  "seq [] st = (None, st)"
| "seq (m # ms) st = (case m st of (Some e, st') \<Rightarrow> (Some e, st') | (None, st') \<Rightarrow> seq ms st')"

definition emit :: "event \<Rightarrow> 'p step" where
  "emit ev st = (None, st\<lparr>trace := trace st @ [ev]\<rparr>)"

definition set_fixed :: "'p step" where
  "set_fixed st = (None, st\<lparr>fixed := True\<rparr>)"

definition on_page :: "nat \<Rightarrow> ('p \<Rightarrow> exn + 'p) \<Rightarrow> 'p step" where
  "on_page n f st =
     (case f (doc st ! n) of Inl e \<Rightarrow> (Some e, st) | Inr p \<Rightarrow> (None, st\<lparr>doc := (doc st)[n := p]\<rparr>))"

definition do_redact :: "'p pdflib \<Rightarrow> kind \<Rightarrow> nat \<Rightarrow> rect \<Rightarrow> 'p step" where
  "do_redact lib k n r = seq [emit (Redact k n r), on_page n (\<lambda>p. redact_rect lib p r)]"

definition do_insert_text ::
  "'p pdflib \<Rightarrow> kind \<Rightarrow> nat \<Rightarrow> point \<Rightarrow> text_arg \<Rightarrow> rat \<Rightarrow> string \<Rightarrow> 'p step" where
  "do_insert_text lib k n pt t fsize fname =
     seq [emit (InsertText k n pt t fsize fname), on_page n (\<lambda>p. insert_text lib p pt t fsize fname)]"

text \<open>\<^verbatim>\<open>instances = page.search_for(needle)\<close>, then \<^verbatim>\<open>if instances: rect = instances[0]\<close>\<close>

definition with_first_match :: "'p pdflib \<Rightarrow> nat \<Rightarrow> pyval \<Rightarrow> (rect \<Rightarrow> 'p step) \<Rightarrow> 'p step" where
  "with_first_match lib n needle f st =
     (case search_for lib (doc st ! n) needle of
        Inl e \<Rightarrow> (Some e, st)
      | Inr [] \<Rightarrow> (None, st)
      | Inr (r # _) \<Rightarrow> f r st)"

section \<open>The findings of an analysis\<close>

text \<open>\<^verbatim>\<open>analysis.get(key, {}).get('found')\<close>, tested for truth\<close>

definition issue_found :: "pyval \<Rightarrow> string \<Rightarrow> exn + bool" where
  "issue_found analysis key =
     ebind (dict_get analysis key (PDict [])) (\<lambda>issue.
     ebind (dict_get issue ''found'' PNone) (\<lambda>f. Inr (truthy f)))"

text \<open>
  The date fix: the date and time are cut out of \<^verbatim>\<open>original_text\<close> and
  \<^verbatim>\<open>replacement_text\<close> with the date pattern; nothing is patched unless both match.
\<close>

definition date_needles :: "pyval \<Rightarrow> exn + (string \<times> string) option" where
  "date_needles analysis =
     ebind (dict_item analysis ''date_issue'') (\<lambda>date_info.
     ebind (dict_get date_info ''original_text'' (PStr [])) (\<lambda>original_date.
     ebind (re_search_date original_date) (\<lambda>original_match.
     ebind (dict_get date_info ''replacement_text'' (PStr [])) (\<lambda>replacement_text.
     ebind (re_search_date replacement_text) (\<lambda>replacement_match.
       case (original_match, replacement_match) of
         (Some old_date, Some new_date) \<Rightarrow> Inr (Some (old_date, new_date))
       | _ \<Rightarrow> Inr None)))))"

definition baseline :: "rect \<Rightarrow> point" where
  \<comment> \<open>\<^verbatim>\<open>(rect.x0, rect.y0 + rect.height * 0.8)\<close>\<close>
  "baseline r = (x0 r, y0 r + height r * (4 / 5))"

text \<open>
  The date block of both \<^verbatim>\<open>fix_pdf\<close>s; they differ in the font size only (9 in the
  single-note tool, 8.82 in the batch tool).
\<close>

definition patch_date :: "'p pdflib \<Rightarrow> rat \<Rightarrow> nat \<Rightarrow> string \<Rightarrow> rect \<Rightarrow> 'p step" where
  "patch_date lib fsize n new_date r =
     seq [do_redact lib DateK n (Rect (x0 r - 2) (y0 r - 2) (x1 r + 2) (y1 r + 2)),
          do_insert_text lib DateK n (baseline r) (Text (PStr new_date)) fsize ''helv'',
          set_fixed]"

definition fix_date :: "'p pdflib \<Rightarrow> rat \<Rightarrow> pyval \<Rightarrow> nat \<Rightarrow> 'p step" where
  "fix_date lib fsize analysis n =
     lift (issue_found analysis ''date_issue'') (\<lambda>found.
       if \<not> found then ok
       else lift (date_needles analysis) (\<lambda>needles.
         case needles of
           None \<Rightarrow> ok
         | Some (old_date, new_date) \<Rightarrow>
             with_first_match lib n (PStr old_date) (\<lambda>r.
               seq [patch_date lib fsize n new_date r,
                    emit (Print (Fixed_date old_date new_date))])))"

text \<open>
  The CPT block of the single-note tool, with its guard
  \<^verbatim>\<open>if current_code and correct_code and current_code != correct_code\<close>.
\<close>

definition cpt_box :: "rect \<Rightarrow> rect" where
  "cpt_box r = Rect (x0 r - 5) (y0 r - 2) (x1 r + 10) (y1 r + 2)"

definition fix_cpt_therapy :: "'p pdflib \<Rightarrow> pyval \<Rightarrow> nat \<Rightarrow> 'p step" where
  "fix_cpt_therapy lib analysis n =
     lift (issue_found analysis ''cpt_issue'') (\<lambda>found.
       if \<not> found then ok
       else lift (dict_item analysis ''cpt_issue'') (\<lambda>cpt_info.
            lift (dict_get cpt_info ''current_code'' (PStr [])) (\<lambda>current_code.
            lift (dict_get cpt_info ''correct_code'' (PStr [])) (\<lambda>correct_code.
              if truthy current_code \<and> truthy correct_code \<and> \<not> py_eq current_code correct_code
              then with_first_match lib n current_code (\<lambda>r.
                     seq [do_redact lib CptK n (cpt_box r),
                          do_insert_text lib CptK n (baseline r) (Text correct_code) (441 / 50) ''helv'',
                          set_fixed,
                          emit (Print (Fixed_cpt current_code correct_code))])
              else ok))))"

text \<open>
  The CPT block of the batch tool: the only guard is \<^verbatim>\<open>if current_code\<close>, and the
  replacement is read with \<^verbatim>\<open>cpt_info['correct_code']\<close> after the redaction, when the
  arguments of \<^verbatim>\<open>insert_text\<close> are evaluated.
\<close>

definition fix_cpt_batch :: "'p pdflib \<Rightarrow> pyval \<Rightarrow> nat \<Rightarrow> 'p step" where
  "fix_cpt_batch lib analysis n =
     lift (issue_found analysis ''cpt_issue'') (\<lambda>found.
       if \<not> found then ok
       else lift (dict_item analysis ''cpt_issue'') (\<lambda>cpt_info.
            lift (dict_get cpt_info ''current_code'' (PStr [])) (\<lambda>current_code.
              if truthy current_code
              then with_first_match lib n current_code (\<lambda>r.
                     seq [do_redact lib CptK n (cpt_box r),
                          lift (dict_item cpt_info ''correct_code'') (\<lambda>correct_code.
                            do_insert_text lib CptK n (baseline r) (Text correct_code) (441 / 50) ''helv''),
                          set_fixed])
              else ok)))"

text \<open>The supervision block (single-note tool only).\<close>

definition supervision_box :: "rect \<Rightarrow> rect" where
  "supervision_box r = Rect (x0 r - 5) (y0 r - 2) (x1 r + 250) (y0 r + 25)"

definition fix_supervision :: "'p pdflib \<Rightarrow> pyval \<Rightarrow> nat \<Rightarrow> 'p step" where
  "fix_supervision lib analysis n =
     lift (issue_found analysis ''supervision_issue'') (\<lambda>found.
       if \<not> found then ok
       else lift (dict_item analysis ''supervision_issue'') (\<lambda>supervision_info.
            lift (dict_get supervision_info ''signer_name'' (PStr [])) (\<lambda>signer_name.
            lift (dict_get supervision_info ''signer_credentials'' (PStr [])) (\<lambda>signer_credentials.
              if truthy signer_name \<and> truthy signer_credentials
              then with_first_match lib n (PStr ''Rendered by:'') (\<lambda>r.
                     seq [do_redact lib SupervisionK n (supervision_box r),
                          do_insert_text lib SupervisionK n (baseline r)
                            (RenderedBy signer_name signer_credentials) (441 / 50)
                            ''Helvetica-BoldOblique'',
                          set_fixed,
                          emit (Print (Fixed_supervision signer_name signer_credentials))])
              else ok))))"

subsection \<open>The goals block (batch tool only)\<close>

text \<open>
  \<^verbatim>\<open>generate_proper_goals\<close> asks the language model for the goals text. The model is a
  parameter: it answers a prompt, for the call made while patching a given page. The
  prompt has two shapes; its fixed wording is left out and the values put into it are
  kept.
\<close>

datatype goals_prompt =
    Keep_first_add_second pyval string
  | Create_both string

text \<open>\<^verbatim>\<open>existing_goals[0] if existing_goals else ''\<close>\<close>

fun first_or_empty :: "pyval \<Rightarrow> exn + pyval" where
  "first_or_empty (PList (x # xs)) = Inr x"
| "first_or_empty (PStr (c # cs)) = Inr (PStr [c])"
| "first_or_empty (PDict (kv # d)) = Inl (KeyError ''0'')"
| "first_or_empty (PNum n) = (if n = 0 then Inr (PStr []) else Inl TypeError)"
| "first_or_empty (PBool b) = (if b then Inl TypeError else Inr (PStr []))"
| "first_or_empty _ = Inr (PStr [])"

definition generate_proper_goals ::
  "(goals_prompt \<Rightarrow> exn + string) \<Rightarrow> pyval \<Rightarrow> string \<Rightarrow> exn + string" where
  "generate_proper_goals llm analysis note_text =
     ebind (dict_get analysis ''goals_issue'' (PDict [])) (\<lambda>gi.
     ebind (dict_get gi ''goals_found'' (PList [])) (\<lambda>existing_goals.
     ebind (dict_get analysis ''goals_issue'' (PDict [])) (\<lambda>gi'.
     ebind (dict_get gi' ''goals_count'' (PNum 0)) (\<lambda>goals_count.
     ebind (if py_eq goals_count (PNum 1)
            then ebind (first_or_empty existing_goals) (\<lambda>g.
                   Inr (Keep_first_add_second g (take 2000 note_text)))
            else Inr (Create_both (take 2000 note_text))) (\<lambda>prompt.
     ebind (llm prompt) (\<lambda>content. Inr (str_strip content)))))))"

text \<open>
  The search for the goal header: the first of the four variants that the page has.
\<close>

fun find_goal_rect :: "'p pdflib \<Rightarrow> 'p \<Rightarrow> string list \<Rightarrow> exn + rect option" where
  "find_goal_rect lib page [] = Inr None"
| "find_goal_rect lib page (search_term # terms) =
     (case search_for lib page (PStr search_term) of
        Inl e \<Rightarrow> Inl e
      | Inr [] \<Rightarrow> find_goal_rect lib page terms
      | Inr (r # _) \<Rightarrow> Inr (Some r))"

definition goal_search :: "string list" where
  "goal_search = [''Goal #1'', ''Goal 1'', ''Goal#1'', ''Goal'']"

definition rect_truthy :: "rect \<Rightarrow> bool" where
  \<comment> \<open>the library's \<^verbatim>\<open>Rect.__bool__\<close>: false for the rectangle of four zeros only\<close>
  "rect_truthy r \<longleftrightarrow> \<not> (x0 r = 0 \<and> y0 r = 0 \<and> x1 r = 0 \<and> y1 r = 0)"

text \<open>
  The lines of the goals text, written from \<open>y_pos\<close> downwards, 13 points apart; blank
  lines are skipped. Both branches of the header test of the code make the same call.
  The function returns the final \<open>y_pos\<close> through the continuation.
\<close>

fun write_lines :: "'p pdflib \<Rightarrow> nat \<Rightarrow> string list \<Rightarrow> rat \<Rightarrow> (rat \<Rightarrow> 'p step) \<Rightarrow> 'p step" where
  "write_lines lib n [] y_pos k = k y_pos"
| "write_lines lib n (line # lines) y_pos k =
     (if str_strip line \<noteq> []
      then seq [do_insert_text lib GoalsK n (35, y_pos) (Text (PStr line)) (441 / 50) ''helv'',
                write_lines lib n lines (y_pos + 13) k]
      else write_lines lib n lines y_pos k)"

definition replace_goals ::
  "'p pdflib \<Rightarrow> (nat \<Rightarrow> goals_prompt \<Rightarrow> exn + string) \<Rightarrow> pyval \<Rightarrow> string \<Rightarrow> nat \<Rightarrow>
   rect \<Rightarrow> rect \<Rightarrow> 'p step" where
  "replace_goals lib llm analysis note_text n goal_rect prognosis_rect st =
     (let page = doc st ! n;
          prognosis_area = Rect 0 (y0 prognosis_rect) (width (page_rect lib page))
                             (height (page_rect lib page))
      in lift (get_pixmap lib page prognosis_area) (\<lambda>prognosis_pixmap.
           seq [(\<lambda>st. do_redact lib GoalsK n
                        (Rect 0 (y0 goal_rect - 5) (width (page_rect lib (doc st ! n)))
                           (y0 prognosis_rect - 5)) st),
                lift (generate_proper_goals (llm n) analysis note_text) (\<lambda>goals_text.
                  write_lines lib n (split_lines goals_text) (y0 goal_rect) (\<lambda>y_pos st.
                    seq [emit (InsertImage GoalsK n
                           (Rect 0 (y_pos + 10) (width (page_rect lib (doc st ! n)))
                              (y_pos + 10 + (height (page_rect lib (doc st ! n)) - y0 prognosis_rect)))),
                         on_page n (\<lambda>p. insert_image lib p
                           (Rect 0 (y_pos + 10) (width (page_rect lib p))
                              (y_pos + 10 + (height (page_rect lib p) - y0 prognosis_rect)))
                           prognosis_pixmap),
                         set_fixed] st))]) st)"

definition fix_goals ::
  "'p pdflib \<Rightarrow> (nat \<Rightarrow> goals_prompt \<Rightarrow> exn + string) \<Rightarrow> pyval \<Rightarrow> string \<Rightarrow> nat \<Rightarrow> 'p step" where
  "fix_goals lib llm analysis note_text n =
     lift (issue_found analysis ''goals_issue'') (\<lambda>found.
       if \<not> found then ok
       else lift (dict_item analysis ''goals_issue'') (\<lambda>goals_info.
            lift (dict_get goals_info ''goals_count'' (PNum 0)) (\<lambda>goals_count.
            lift (py_lt2 goals_count) (\<lambda>too_few.
              if \<not> too_few then ok
              else (\<lambda>st. lift (find_goal_rect lib (doc st ! n) goal_search) (\<lambda>found_rect.
                     case found_rect of
                       None \<Rightarrow> ok
                     | Some goal_rect \<Rightarrow>
                         if \<not> rect_truthy goal_rect then ok
                         else with_first_match lib n (PStr ''OVERALL PROGNOSIS'')
                                (replace_goals lib llm analysis note_text n goal_rect)) st)))))"

section \<open>One pass over the pages\<close>

definition fix_page_therapy :: "'p pdflib \<Rightarrow> pyval \<Rightarrow> nat \<Rightarrow> 'p step" where
  "fix_page_therapy lib analysis n =
     seq [fix_date lib 9 analysis n, fix_cpt_therapy lib analysis n, fix_supervision lib analysis n]"

definition fix_page_batch ::
  "'p pdflib \<Rightarrow> (nat \<Rightarrow> goals_prompt \<Rightarrow> exn + string) \<Rightarrow> pyval \<Rightarrow> string \<Rightarrow> nat \<Rightarrow> 'p step" where
  "fix_page_batch lib llm analysis note_text n =
     seq [fix_date lib (441 / 50) analysis n, fix_cpt_batch lib analysis n,
          fix_goals lib llm analysis note_text n]"

text \<open>\<^verbatim>\<open>for page_num in range(len(doc))\<close>: an exception leaves the loop.\<close>

fun fix_pages :: "(nat \<Rightarrow> 'p step) \<Rightarrow> nat list \<Rightarrow> 'p step" where
  "fix_pages fix_page [] st = (None, st)"
| "fix_pages fix_page (n # ns) st =
     (case fix_page n st of
        (Some e, st') \<Rightarrow> (Some e, st')
      | (None, st') \<Rightarrow> fix_pages fix_page ns st')"

section \<open>Files and document handles\<close>

text \<open>
  The world outside a patch session: the files (a path holds the pages of a document),
  the number of documents opened with \<^verbatim>\<open>fitz.open\<close> and not closed yet, the trace of
  everything done so far, and the list of the states the files went through, one entry
  for each file operation.
\<close>

record 'p world =
  fs :: "string \<rightharpoonup> 'p list"
  open_handles :: nat
  events :: "event list"
  fs_history :: "(string \<rightharpoonup> 'p list) list"

type_synonym 'p wstep = "'p world \<Rightarrow> exn option \<times> 'p world"

definition set_fs :: "(string \<rightharpoonup> 'p list) \<Rightarrow> 'p world \<Rightarrow> 'p world" where
  "set_fs f w = w\<lparr>fs := f, fs_history := fs_history w @ [f]\<rparr>"

definition say :: "msg \<Rightarrow> 'p wstep" where
  "say m w = (None, w\<lparr>events := events w @ [Print m]\<rparr>)"

text \<open>
  \<^verbatim>\<open>doc.save(path)\<close> of a document opened from \<open>opened_from\<close>: the library refuses to
  write a document over the file it was opened from (it raises ValueError unless the save
  is incremental).
\<close>

definition fitz_save :: "string \<Rightarrow> string \<Rightarrow> 'p list \<Rightarrow> 'p wstep" where
  "fitz_save opened_from path pages w =
     (if path = opened_from then (Some ValueError, w)
      else (None, set_fs ((fs w)(path \<mapsto> pages)) w))"

definition fitz_close :: "'p wstep" where
  "fitz_close w = (None, w\<lparr>open_handles := open_handles w - 1\<rparr>)"

definition os_remove :: "string \<Rightarrow> 'p wstep" where
  "os_remove path w =
     (case fs w path of
        None \<Rightarrow> (Some (FileNotFoundError path), w)
      | Some d \<Rightarrow> (None, set_fs ((fs w)(path := None)) w))"

definition os_rename :: "string \<Rightarrow> string \<Rightarrow> 'p wstep" where
  "os_rename src dst w =
     (case fs w src of
        None \<Rightarrow> (Some (FileNotFoundError src), w)
      | Some d \<Rightarrow> if src = dst then (None, w)
                  else (None, set_fs ((fs w)(dst \<mapsto> d, src := None)) w))"

text \<open>
  \<^verbatim>\<open>doc = fitz.open(pdf_path)\<close>, the loop over the pages, and what the session leaves in
  the world: the handle is open, and the trace of the session is appended.
\<close>

definition run_session ::
  "(nat \<Rightarrow> 'p step) \<Rightarrow> 'p list \<Rightarrow> 'p world \<Rightarrow> (exn option \<times> 'p pst) \<times> 'p world" where
  "run_session fix_page pages w =
     (let r = fix_pages fix_page [0..<length pages] \<lparr>doc = pages, fixed = False, trace = []\<rparr>
      in (r, w\<lparr>open_handles := open_handles w + 1, events := events w @ trace (snd r)\<rparr>))"

section \<open>fix_pdf of the single-note tool\<close>

text \<open>
  \<^verbatim>\<open>TherapyNoteProcessor.fix_pdf\<close>. The test before the \<^verbatim>\<open>try\<close> evaluates all four
  \<^verbatim>\<open>found\<close> flags (they are the elements of a list given to \<^verbatim>\<open>any\<close>); an exception
  there reaches the caller.
\<close>

definition any_found_therapy :: "pyval \<Rightarrow> exn + bool" where
  "any_found_therapy analysis =
     ebind (issue_found analysis ''date_issue'') (\<lambda>d.
     ebind (issue_found analysis ''cpt_issue'') (\<lambda>c.
     ebind (issue_found analysis ''goals_issue'') (\<lambda>g.
     ebind (issue_found analysis ''supervision_issue'') (\<lambda>s. Inr (d \<or> c \<or> g \<or> s)))))"

definition temp_path :: "string \<Rightarrow> string" where
  "temp_path pdf_path = str_replace pdf_path ''.pdf'' ''_TEMP_FIXED.pdf''"

text \<open>The body of the \<^verbatim>\<open>try\<close>: \<open>Inl\<close> is an exception on its way to the handler.\<close>

definition fix_pdf_therapy_body ::
  "'p pdflib \<Rightarrow> string \<Rightarrow> pyval \<Rightarrow> 'p world \<Rightarrow> (exn + bool) \<times> 'p world" where
  "fix_pdf_therapy_body lib pdf_path analysis w =
     (case fs w pdf_path of
        None \<Rightarrow> (Inl (FileNotFoundError pdf_path), w)
      | Some pages \<Rightarrow>
          (case run_session (fix_page_therapy lib analysis) pages w of
             ((Some e, st), w') \<Rightarrow> (Inl e, w')
           | ((None, st), w') \<Rightarrow>
               if fixed st then
                 (case seq [fitz_save pdf_path (temp_path pdf_path) (doc st),
                            fitz_close,
                            os_remove pdf_path,
                            os_rename (temp_path pdf_path) pdf_path] w' of
                    (Some e, w'') \<Rightarrow> (Inl e, w'')
                  | (None, w'') \<Rightarrow> (Inr True, w''))
               else (Inr False, snd (fitz_close w'))))"

text \<open>\<^verbatim>\<open>except Exception as e: print(...); return False\<close>\<close>

definition catch_all :: "string \<Rightarrow> (exn + bool) \<times> 'p world \<Rightarrow> (exn + bool) \<times> 'p world" where
  "catch_all pdf_path r =
     (case r of
        (Inl e, w) \<Rightarrow> (Inr False, snd (say (Error_fixing pdf_path e) w))
      | (Inr b, w) \<Rightarrow> (Inr b, w))"

definition fix_pdf_therapy ::
  "'p pdflib \<Rightarrow> string \<Rightarrow> pyval \<Rightarrow> 'p world \<Rightarrow> (exn + bool) \<times> 'p world" where
  "fix_pdf_therapy lib pdf_path analysis w =
     (case any_found_therapy analysis of
        Inl e \<Rightarrow> (Inl e, w)
      | Inr False \<Rightarrow> (Inr False, w)
      | Inr True \<Rightarrow> catch_all pdf_path (fix_pdf_therapy_body lib pdf_path analysis w))"

section \<open>fix_pdf of the batch tool\<close>

text \<open>
  \<^verbatim>\<open>ComplianceChecker.fix_pdf\<close>. The test before the \<^verbatim>\<open>try\<close> is a chain of
  \<^verbatim>\<open>or\<close>: a flag is only read when the ones before it are false.
\<close>

definition any_found_batch :: "pyval \<Rightarrow> exn + bool" where
  "any_found_batch analysis =
     ebind (issue_found analysis ''date_issue'') (\<lambda>d.
       if d then Inr True
       else ebind (issue_found analysis ''cpt_issue'') (\<lambda>c.
         if c then Inr True else issue_found analysis ''goals_issue''))"

definition corrected_path :: "string \<Rightarrow> string" where
  "corrected_path pdf_path = str_replace pdf_path ''.pdf'' ''_CORRECTED.pdf''"

definition needs_review_path :: "string \<Rightarrow> string" where
  "needs_review_path pdf_path = str_replace pdf_path ''.pdf'' ''_CORRECTED_NEEDS_REVIEW.pdf''"

text \<open>
  The verification pass: the text of page 0 is read again; the only test that changes
  \<open>verification_passed\<close> is \<^verbatim>\<open>"LCSW" in page_text and "LCSWa" in page_text\<close>; the
  dates found are printed (the first two) when there is one.
\<close>

definition verification_passed :: "string \<Rightarrow> bool" where
  "verification_passed page_text \<longleftrightarrow>
     \<not> (str_contains ''LCSW'' page_text \<and> str_contains ''LCSWa'' page_text)"

definition verify_and_save :: "'p pdflib \<Rightarrow> string \<Rightarrow> 'p list \<Rightarrow> 'p wstep" where
  "verify_and_save lib pdf_path pages =
     seq [say Verifying,
          (\<lambda>w. case (case pages of [] \<Rightarrow> Inl IndexError | page # _ \<Rightarrow> get_text lib page) of
                 Inl e \<Rightarrow> (Some e, w)
               | Inr page_text \<Rightarrow>
                   seq [if verification_passed page_text then (\<lambda>w. (None, w)) else say Lcsw_warning,
                        if findall_dates page_text \<noteq> []
                        then say (Found_dates (take 2 (findall_dates page_text)))
                        else (\<lambda>w. (None, w)),
                        if verification_passed page_text
                        then seq [fitz_save pdf_path (corrected_path pdf_path) pages,
                                  say Verified_and_saved]
                        else seq [say Verification_failed,
                                  fitz_save pdf_path (needs_review_path pdf_path) pages],
                        fitz_close] w)]"

definition fix_pdf_batch_body ::
  "'p pdflib \<Rightarrow> (nat \<Rightarrow> goals_prompt \<Rightarrow> exn + string) \<Rightarrow> string \<Rightarrow> pyval \<Rightarrow> string \<Rightarrow>
   'p world \<Rightarrow> (exn + bool) \<times> 'p world" where
  "fix_pdf_batch_body lib llm pdf_path analysis note_text w =
     (case fs w pdf_path of
        None \<Rightarrow> (Inl (FileNotFoundError pdf_path), w)
      | Some pages \<Rightarrow>
          (case run_session (fix_page_batch lib llm analysis note_text) pages w of
             ((Some e, st), w') \<Rightarrow> (Inl e, w')
           | ((None, st), w') \<Rightarrow>
               if fixed st then
                 (case verify_and_save lib pdf_path (doc st) w' of
                    (Some e, w'') \<Rightarrow> (Inl e, w'')
                  | (None, w'') \<Rightarrow> (Inr True, w''))
               else (Inr False, snd (fitz_close w'))))"

definition fix_pdf_batch ::
  "'p pdflib \<Rightarrow> (nat \<Rightarrow> goals_prompt \<Rightarrow> exn + string) \<Rightarrow> string \<Rightarrow> pyval \<Rightarrow> string \<Rightarrow>
   'p world \<Rightarrow> (exn + bool) \<times> 'p world" where
  "fix_pdf_batch lib llm pdf_path analysis note_text w =
     (case any_found_batch analysis of
        Inl e \<Rightarrow> (Inl e, w)
      | Inr False \<Rightarrow> (Inr False, w)
      | Inr True \<Rightarrow>
          catch_all pdf_path (fix_pdf_batch_body lib llm pdf_path analysis note_text w))"

section \<open>The analysis call and the drivers\<close>

text \<open>
  \<^verbatim>\<open>analyze_with_ai\<close> of both tools, after the language model has answered with the
  text \<open>content\<close>. \<^verbatim>\<open>json.loads\<close> is a parameter: \<open>None\<close> stands for JSONDecodeError.
  The second \<^verbatim>\<open>json.loads\<close>, on the text between the braces, is inside the
  \<^verbatim>\<open>except\<close> block and outside any \<^verbatim>\<open>try\<close>.
\<close>

definition parse_error :: "string \<Rightarrow> pyval" where
  "parse_error filename =
     PDict [(''error'', PStr ''Could not parse AI response''), (''filename'', PStr filename)]"

definition analyze_with_ai :: "(string \<Rightarrow> pyval option) \<Rightarrow> string \<Rightarrow> string \<Rightarrow> exn + pyval" where
  "analyze_with_ai json_loads content filename =
     (case json_loads content of
        Some v \<Rightarrow> Inr v
      | None \<Rightarrow>
          (case search_braces content of
             Some fragment \<Rightarrow>
               (case json_loads fragment of Some v \<Rightarrow> Inr v | None \<Rightarrow> Inl JSONDecodeError)
           | None \<Rightarrow> Inr (parse_error filename)))"

text \<open>\<^verbatim>\<open>d[key] = value\<close>\<close>

fun assoc_set :: "string \<Rightarrow> pyval \<Rightarrow> (string \<times> pyval) list \<Rightarrow> (string \<times> pyval) list" where
  "assoc_set k v [] = [(k, v)]"
| "assoc_set k v ((k', v') # d) = (if k' = k then (k, v) # d else (k', v') # assoc_set k v d)"

fun dict_set :: "pyval \<Rightarrow> string \<Rightarrow> pyval \<Rightarrow> exn + pyval" where
  "dict_set (PDict d) k v = Inr (PDict (assoc_set k v d))"
| "dict_set _ k v = Inl TypeError"

text \<open>
  The entry that a driver appends to its results: the analysis, or the error record
  \<^verbatim>\<open>{'filename': ..., 'error': ...}\<close>.
\<close>

datatype result = Analysis pyval | Failed string exn

text \<open>\<^verbatim>\<open>r.get('corrections_made')\<close>, as the summary and the report read it\<close>

fun corrections_made :: "result \<Rightarrow> exn + pyval" where
  "corrections_made (Analysis a) = dict_get a ''corrections_made'' PNone"
| "corrections_made (Failed filename e) = Inr PNone"

text \<open>
  \<^verbatim>\<open>analysis.get('goals_issue', {}).get('found') and
  analysis.get('goals_issue', {}).get('goals_count', 0) < 2\<close>
\<close>

definition goals_need_fixing :: "pyval \<Rightarrow> exn + bool" where
  "goals_need_fixing analysis =
     ebind (issue_found analysis ''goals_issue'') (\<lambda>g.
       if \<not> g then Inr False
       else ebind (dict_get analysis ''goals_issue'' (PDict [])) (\<lambda>gi.
            ebind (dict_get gi ''goals_count'' (PNum 0)) py_lt2))"

definition needs_fixing_batch :: "pyval \<Rightarrow> exn + bool" where
  "needs_fixing_batch analysis =
     ebind (issue_found analysis ''date_issue'') (\<lambda>d.
       if d then Inr True
       else ebind (issue_found analysis ''cpt_issue'') (\<lambda>c.
         if c then Inr True else goals_need_fixing analysis))"


text \<open>
  \<^verbatim>\<open>ComplianceChecker.process_pdf\<close>. \<open>extracted\<close> is what reading the text with
  pdfplumber gives, \<open>content\<close> the answer of the language model. Only the failure to
  read the text is caught; every other exception reaches the caller.
\<close>

definition process_pdf ::
  "'p pdflib \<Rightarrow> (nat \<Rightarrow> goals_prompt \<Rightarrow> exn + string) \<Rightarrow> (string \<Rightarrow> pyval option) \<Rightarrow>
   string \<Rightarrow> string \<Rightarrow> exn + string \<Rightarrow> string \<Rightarrow> 'p world \<Rightarrow> (exn + result) \<times> 'p world" where
  "process_pdf lib llm json_loads pdf_path filename extracted content w =
     (case extracted of
        Inl e \<Rightarrow> (Inr (Failed filename e), w)
      | Inr full_text \<Rightarrow>
          (case analyze_with_ai json_loads content filename of
             Inl e \<Rightarrow> (Inl e, w)
           | Inr analysis \<Rightarrow>
               (case needs_fixing_batch analysis of
                  Inl e \<Rightarrow> (Inl e, w)
                | Inr needs_fixing \<Rightarrow>
                    (case (if needs_fixing
                           then fix_pdf_batch lib llm pdf_path analysis full_text w
                           else (Inr False, w)) of
                       (Inl e, w') \<Rightarrow> (Inl e, w')
                     | (Inr made, w') \<Rightarrow>
                         (case dict_set analysis ''corrections_made'' (PBool made) of
                            Inl e \<Rightarrow> (Inl e, w')
                          | Inr analysis' \<Rightarrow> (Inr (Analysis analysis'), w'))))))"








section \<open>A small PDF library to run the model on\<close>

text \<open>
  The theorems below hold for every library. To run the two tools on a concrete document
  they are given this one: a page is a list of pieces of text with their boxes, a search
  returns the boxes of the pieces that contain the needle, a redaction removes the pieces
  whose box meets the rectangle, and an insertion adds a piece.
\<close>

type_synonym demo_page = "(string \<times> rect) list"

definition overlaps :: "rect \<Rightarrow> rect \<Rightarrow> bool" where
  "overlaps a b \<longleftrightarrow> x0 a < x1 b \<and> x0 b < x1 a \<and> y0 a < y1 b \<and> y0 b < y1 a"

fun render_text :: "text_arg \<Rightarrow> exn + string" where
  "render_text (Text (PStr s)) = Inr s"
| "render_text (RenderedBy (PStr a) (PStr b)) = Inr (''Rendered by: '' @ a @ '', '' @ b)"
| "render_text _ = Inl TypeError"

definition demo_search :: "demo_page \<Rightarrow> pyval \<Rightarrow> exn + rect list" where
  "demo_search page needle =
     (case needle of
        PStr s \<Rightarrow> Inr (map snd (filter (\<lambda>piece. str_contains s (fst piece)) page))
      | _ \<Rightarrow> Inl TypeError)"

definition demo_insert_text ::
  "demo_page \<Rightarrow> point \<Rightarrow> text_arg \<Rightarrow> rat \<Rightarrow> string \<Rightarrow> exn + demo_page" where
  "demo_insert_text page pt t fsize fname =
     (case render_text t of
        Inl e \<Rightarrow> Inl e
      | Inr s \<Rightarrow> Inr (page @ [(s, Rect (fst pt) (snd pt - fsize) (fst pt + 5 * of_nat (length s)) (snd pt))]))"

definition demo_lib :: "demo_page pdflib" where
  "demo_lib =
     \<lparr>search_for = demo_search,
      redact_rect = (\<lambda>page r. Inr (filter (\<lambda>piece. \<not> overlaps (snd piece) r) page)),
      insert_text = demo_insert_text,
      get_pixmap = (\<lambda>page r. Inr (page, r)),
      insert_image = (\<lambda>page r pixmap. Inr (page @ [(''(image)'', r)])),
      page_rect = (\<lambda>page. Rect 0 0 612 792),
      get_text = (\<lambda>page. Inr (concat (map (\<lambda>piece. fst piece @ [CHR 0x0A]) page)))\<rparr>"

text \<open>The same library with a redaction that fails.\<close>

definition failing_lib :: "demo_page pdflib" where
  "failing_lib = demo_lib\<lparr>redact_rect := (\<lambda>page r. Inl LibraryError)\<rparr>"

text \<open>A note of one page, and the world that holds it at \<^verbatim>\<open>/notes/a.pdf\<close>.\<close>

definition demo_note :: "demo_page list" where
  "demo_note =
     [[(''CPT Code: 90834'', Rect 35 100 120 110),
       (''Billed 90834'', Rect 35 120 150 130),
       (''Rendered by: John Roe, LPCA'', Rect 35 300 200 310),
       (''signed 07/02/2025 11:10 am'', Rect 35 700 400 710)]]"

definition demo_world :: "demo_page world" where
  "demo_world = \<lparr>fs = [''/notes/a.pdf'' \<mapsto> demo_note], open_handles = 0, events = [], fs_history = []\<rparr>"

definition no_goals_llm :: "nat \<Rightarrow> goals_prompt \<Rightarrow> exn + string" where
  "no_goals_llm n prompt = Inl LibraryError"

text \<open>
  A fragment of \<^verbatim>\<open>json.loads\<close>: it parses the empty object and rejects every other
  text. It agrees with \<^verbatim>\<open>json.loads\<close> on the texts it is run on below.
\<close>

definition demo_json_loads :: "string \<Rightarrow> pyval option" where
  "demo_json_loads s = (if str_strip s = ''{}'' then Some (PDict []) else None)"

text \<open>Analyses to run the tools on.\<close>

definition clean_analysis :: pyval where
  "clean_analysis = PDict
     [(''date_issue'', PDict [(''found'', PBool False)]),
      (''cpt_issue'', PDict [(''found'', PBool False), (''current_code'', PStr ''90834''),
                             (''correct_code'', PStr ''90834'')]),
      (''goals_issue'', PDict [(''found'', PBool False), (''goals_count'', PNum 2)]),
      (''supervision_issue'', PDict [(''found'', PBool False)])]"

definition same_code_analysis :: pyval where
  "same_code_analysis = PDict
     [(''cpt_issue'', PDict [(''found'', PBool True), (''current_code'', PStr ''90834''),
                             (''correct_code'', PStr ''90834'')])]"

definition wrong_code_analysis :: pyval where
  "wrong_code_analysis = PDict
     [(''cpt_issue'', PDict [(''found'', PBool True), (''current_code'', PStr ''90834''),
                             (''correct_code'', PStr ''90837'')])]"

definition no_correct_code_analysis :: pyval where
  "no_correct_code_analysis = PDict
     [(''cpt_issue'', PDict [(''found'', PBool True), (''current_code'', PStr ''90834'')])]"

text \<open>The note after its first CPT code was replaced by \<open>code\<close>.\<close>

definition repatched_note :: "string \<Rightarrow> demo_page list" where
  "repatched_note code =
     [[(''Billed 90834'', Rect 35 120 150 130),
       (''Rendered by: John Roe, LPCA'', Rect 35 300 200 310),
       (''signed 07/02/2025 11:10 am'', Rect 35 700 400 710),
       (code, Rect 35 (4959 / 50) 60 108)]]"



text \<open>
  The document that the patch session of the single-note tool leaves in memory.
\<close>

definition patched_doc :: "'p pdflib \<Rightarrow> pyval \<Rightarrow> 'p list \<Rightarrow> 'p list" where
  "patched_doc lib analysis pages =
     doc (snd (fix_pages (fix_page_therapy lib analysis) [0..<length pages]
                 \<lparr>doc = pages, fixed = False, trace = []\<rparr>))"









section \<open>Facts about the model\<close>

lemmas string_defs = startswith_def str_replace_def str_strip_def is_space_def is_digit_def
  m_digits_def m_char_def m_spaces_def m_digits12_def m_ap_def date_pattern_def findall_dates_def
  search_braces_def

lemmas step_defs = ok_def ebind_def lift_def emit_def set_fixed_def on_page_def do_redact_def
  do_insert_text_def with_first_match_def issue_found_def date_needles_def baseline_def
  patch_date_def fix_date_def cpt_box_def fix_cpt_therapy_def fix_cpt_batch_def
  supervision_box_def fix_supervision_def generate_proper_goals_def goal_search_def
  rect_truthy_def replace_goals_def fix_goals_def fix_page_therapy_def fix_page_batch_def
  Rect_def height_def width_def

lemmas world_defs = set_fs_def say_def fitz_save_def fitz_close_def os_remove_def os_rename_def
  run_session_def any_found_therapy_def temp_path_def fix_pdf_therapy_body_def catch_all_def
  fix_pdf_therapy_def any_found_batch_def corrected_path_def needs_review_path_def
  verification_passed_def verify_and_save_def fix_pdf_batch_body_def fix_pdf_batch_def

lemmas demo_defs = overlaps_def demo_search_def demo_insert_text_def demo_lib_def failing_lib_def
  demo_note_def demo_world_def no_goals_llm_def demo_json_loads_def

lemma issue_found_dict: "issue_found a k = Inr b \<Longrightarrow> \<exists>d. a = PDict d"
  by (cases a) (simp_all add: issue_found_def ebind_def)

lemma map_of_assoc_set: "map_of (assoc_set k v d) k' = (if k' = k then Some v else map_of d k')"
  by (induction d) auto

lemma corrections_made_set:
  "dict_set a ''corrections_made'' (PBool b) = Inr a' \<Longrightarrow>
   corrections_made (Analysis a') = Inr (PBool b)"
  by (cases a) (auto simp: map_of_assoc_set)


lemma goals_need_fixing_not_found:
  "issue_found a ''goals_issue'' = Inr False \<Longrightarrow> goals_need_fixing a = Inr False"
  by (simp add: goals_need_fixing_def ebind_def)


























text \<open>What each block does when its search finds nothing.\<close>

lemma issue_found_of_item:
  "dict_item a k = Inr (PDict d) \<Longrightarrow>
   issue_found a k = Inr (truthy (case map_of d ''found'' of None \<Rightarrow> PNone | Some v \<Rightarrow> v))"
  by (cases a) (auto simp: issue_found_def ebind_def split: option.splits)










text \<open>
  The guard of the single-note tool: with equal codes its CPT block does nothing, on any
  page and with any library, and no run of its \<^verbatim>\<open>fix_pdf\<close> issues a redaction or an
  insertion for the CPT finding.
\<close>

lemma py_eq_refl: "py_eq x x"
proof (induction x)
  case (PList xs) then show ?case by (simp add: list_all2_same) 
next
  case (PDict d)
  have "\<exists>u. map_of d k = Some u \<and> py_eq u u" if "k \<in> fst ` set d" for k
  proof -
    from that obtain u where u: "map_of d k = Some u"
      by (cases "map_of d k") (auto simp: map_of_eq_None_iff)
    then have "(k, u) \<in> set d" by (rule map_of_SomeD)
    then have "py_eq u u" using PDict.IH by fastforce
    with u show ?thesis by blast
  qed
  then show ?case by (fastforce simp: list_all_iff)
qed simp_all

lemma fix_cpt_therapy_same_code:
  assumes "dict_item analysis ''cpt_issue'' = Inr cpt_info"
    and "dict_get cpt_info ''current_code'' (PStr []) = Inr code"
    and "dict_get cpt_info ''correct_code'' (PStr []) = Inr code"
  shows "fix_cpt_therapy lib analysis n st = (None, st)"
proof -
  from assms(2) obtain d where d: "cpt_info = PDict d" by (cases cpt_info) simp_all
  with assms(1) obtain b where "issue_found analysis ''cpt_issue'' = Inr b"
    using issue_found_of_item by blast
  with assms d show ?thesis
    by (simp add: fix_cpt_therapy_def lift_def ok_def py_eq_refl split: option.splits)
qed

lemma seq_trace:
  assumes "\<And>m st. m \<in> set ms \<Longrightarrow> cpt_free (trace st) \<Longrightarrow> cpt_free (trace (snd (m st)))"
    and "cpt_free (trace st)"
  shows "cpt_free (trace (snd (seq ms st)))"
  using assms
proof (induction ms arbitrary: st)
  case Nil then show ?case by simp
next
  case (Cons m ms)
  have "cpt_free (trace (snd (m st)))" using Cons.prems by simp
  then show ?case
    using Cons by (cases "m st") (auto split: option.splits)
qed

lemma emit_cpt_free:
  "event_kind ev \<noteq> Some CptK \<Longrightarrow> cpt_free (trace st) \<Longrightarrow> cpt_free (trace (snd (emit ev st)))"
  by (simp add: emit_def cpt_free_def)

lemma on_page_trace: "trace (snd (on_page n f st)) = trace st"
  by (simp add: on_page_def split: sum.splits)

lemma set_fixed_trace: "trace (snd (set_fixed st)) = trace st"
  by (simp add: set_fixed_def)

lemma do_redact_cpt_free:
  "k \<noteq> CptK \<Longrightarrow> cpt_free (trace st) \<Longrightarrow> cpt_free (trace (snd (do_redact lib k n r st)))"
  unfolding do_redact_def
  by (rule seq_trace) (auto simp: emit_cpt_free on_page_trace)

lemma do_insert_text_cpt_free:
  "k \<noteq> CptK \<Longrightarrow> cpt_free (trace st) \<Longrightarrow>
   cpt_free (trace (snd (do_insert_text lib k n p t fsize fname st)))"
  unfolding do_insert_text_def
  by (rule seq_trace) (auto simp: emit_cpt_free on_page_trace)

lemma lift_trace:
  "(\<And>x. v = Inr x \<Longrightarrow> cpt_free (trace (snd (f x st)))) \<Longrightarrow> cpt_free (trace st) \<Longrightarrow>
   cpt_free (trace (snd (lift v f st)))"
  by (cases v) (simp_all add: lift_def)

lemma with_first_match_trace:
  "(\<And>r. cpt_free (trace (snd (f r st)))) \<Longrightarrow> cpt_free (trace st) \<Longrightarrow>
   cpt_free (trace (snd (with_first_match lib n needle f st)))"
  by (simp add: with_first_match_def split: sum.splits list.splits)

lemma fix_date_cpt_free:
  assumes "cpt_free (trace st)"
  shows "cpt_free (trace (snd (fix_date lib fsize a n st)))"
  unfolding fix_date_def
proof (rule lift_trace [OF _ assms], goal_cases)
  case (1 found)
  show ?case
  proof (cases found)
    case False then show ?thesis using assms by (simp add: ok_def)
  next
    case True
    have "cpt_free (trace (snd (lift (date_needles a)
            (\<lambda>needles. case needles of None \<Rightarrow> ok
               | Some (old_date, new_date) \<Rightarrow>
                   with_first_match lib n (PStr old_date)
                     (\<lambda>r. seq [patch_date lib fsize n new_date r,
                               emit (Print (Fixed_date old_date new_date))])) st)))"
    proof (rule lift_trace [OF _ assms], goal_cases)
      case (1 needles)
      show ?case
      proof (cases needles)
        case None then show ?thesis using assms by (simp add: ok_def)
      next
        case (Some p)
        obtain old_date new_date where p: "p = (old_date, new_date)" by (cases p)
        have "cpt_free (trace (snd (with_first_match lib n (PStr old_date)
                     (\<lambda>r. seq [patch_date lib fsize n new_date r,
                               emit (Print (Fixed_date old_date new_date))]) st)))"
        proof (rule with_first_match_trace [OF _ assms])
          fix r
          show "cpt_free (trace (snd (seq [patch_date lib fsize n new_date r,
                               emit (Print (Fixed_date old_date new_date))] st)))"
          proof (rule seq_trace [OF _ assms])
            fix m and s :: "'a pst"
            assume m: "m \<in> set [patch_date lib fsize n new_date r,
                               emit (Print (Fixed_date old_date new_date))]"
              and s: "cpt_free (trace s)"
            have "cpt_free (trace (snd (patch_date lib fsize n new_date r s)))"
              unfolding patch_date_def
              by (rule seq_trace [OF _ s])
                (auto simp: do_redact_cpt_free do_insert_text_cpt_free set_fixed_trace)
            with m s show "cpt_free (trace (snd (m s)))"
              by (auto simp: emit_cpt_free)
          qed
        qed
        with Some p show ?thesis by simp
      qed
    qed
    with True show ?thesis by simp
  qed
qed

lemma fix_supervision_cpt_free:
  assumes "cpt_free (trace st)"
  shows "cpt_free (trace (snd (fix_supervision lib a n st)))"
  unfolding fix_supervision_def
proof (rule lift_trace [OF _ assms], goal_cases)
  case (1 found)
  show ?case
  proof (cases found)
    case False then show ?thesis using assms by (simp add: ok_def)
  next
    case True
    have "cpt_free (trace (snd (seq [do_redact lib SupervisionK n (supervision_box r),
                          do_insert_text lib SupervisionK n (baseline r)
                            (RenderedBy x y) (441 / 50) ''Helvetica-BoldOblique'',
                          set_fixed,
                          emit (Print (Fixed_supervision x y))] st)))" for r x y
      by (rule seq_trace [OF _ assms])
        (auto simp: do_redact_cpt_free do_insert_text_cpt_free set_fixed_trace emit_cpt_free)
    then show ?thesis
      using True assms
      by (auto intro!: lift_trace with_first_match_trace simp: ok_def)
  qed
qed

lemma fix_pages_trace:
  assumes "\<And>n st. cpt_free (trace st) \<Longrightarrow> cpt_free (trace (snd (fix_page n st)))"
    and "cpt_free (trace st)"
  shows "cpt_free (trace (snd (fix_pages fix_page ns st)))"
  using assms(2)
proof (induction ns arbitrary: st)
  case Nil then show ?case by simp
next
  case (Cons n ns)
  have "cpt_free (trace (snd (fix_page n st)))" using assms(1) Cons.prems by simp
  then show ?case using Cons.IH by (cases "fix_page n st") (auto split: option.splits)
qed

lemma therapy_session_cpt_free:
  assumes "dict_item analysis ''cpt_issue'' = Inr cpt_info"
    and "dict_get cpt_info ''current_code'' (PStr []) = Inr code"
    and "dict_get cpt_info ''correct_code'' (PStr []) = Inr code"
  shows "cpt_free (trace (snd (fix_pages (fix_page_therapy lib analysis) ns
                                  \<lparr>doc = pages, fixed = False, trace = []\<rparr>)))"
proof (rule fix_pages_trace)
  show "cpt_free (trace \<lparr>doc = pages, fixed = False, trace = []\<rparr>)" by (simp add: cpt_free_def)
next
  fix n and st :: "'a pst"
  assume st: "cpt_free (trace st)"
  show "cpt_free (trace (snd (fix_page_therapy lib analysis n st)))"
    unfolding fix_page_therapy_def
  proof (rule seq_trace [OF _ st])
    fix m and s :: "'a pst"
    assume "m \<in> set [fix_date lib 9 analysis n, fix_cpt_therapy lib analysis n,
                      fix_supervision lib analysis n]" and "cpt_free (trace s)"
    then show "cpt_free (trace (snd (m s)))"
      using fix_cpt_therapy_same_code [OF assms, of lib n s]
      by (auto simp: fix_date_cpt_free fix_supervision_cpt_free)
  qed
qed

lemma persist_events:
  "seq [fitz_save p q d, fitz_close, os_remove p, os_rename q p] w = (r, w') \<Longrightarrow>
   events w' = events w"
  by (auto simp: fitz_save_def fitz_close_def os_remove_def os_rename_def set_fs_def
      split: option.splits if_splits)

lemma therapy_no_cpt_patch_on_equal_codes:
  assumes "dict_item analysis ''cpt_issue'' = Inr cpt_info"
    and "dict_get cpt_info ''current_code'' (PStr []) = Inr code"
    and "dict_get cpt_info ''correct_code'' (PStr []) = Inr code"
    and "cpt_free (events w)"
  shows "cpt_free (events (snd (fix_pdf_therapy lib pdf_path analysis w)))"
proof -
  have body: "cpt_free (events (snd (fix_pdf_therapy_body lib pdf_path analysis w)))"
  proof (cases "fs w pdf_path")
    case None
    with assms(4) show ?thesis by (simp add: fix_pdf_therapy_body_def)
  next
    case (Some pages)
    define r where "r = fix_pages (fix_page_therapy lib analysis) [0..<length pages]
                          \<lparr>doc = pages, fixed = False, trace = []\<rparr>"
    define w1 where "w1 = w\<lparr>open_handles := open_handles w + 1, events := events w @ trace (snd r)\<rparr>"
    have "cpt_free (trace (snd r))"
      unfolding r_def by (rule therapy_session_cpt_free [OF assms(1-3)])
    with assms(4) have w1: "cpt_free (events w1)"
      by (simp add: w1_def cpt_free_def)
    have rs: "run_session (fix_page_therapy lib analysis) pages w = (r, w1)"
      by (simp add: run_session_def r_def w1_def Let_def)
    obtain e st where r: "r = (e, st)" by (cases r)
    obtain x w2 where p: "seq [fitz_save pdf_path (temp_path pdf_path) (doc st), fitz_close,
                os_remove pdf_path, os_rename (temp_path pdf_path) pdf_path] w1 = (x, w2)"
      by (cases "seq [fitz_save pdf_path (temp_path pdf_path) (doc st), fitz_close,
                os_remove pdf_path, os_rename (temp_path pdf_path) pdf_path] w1")
    from persist_events [OF p] w1 have "cpt_free (events w2)" by simp
    with w1 Some rs r p show ?thesis
      by (auto simp: fix_pdf_therapy_body_def fitz_close_def split: option.splits)
  qed
  then show ?thesis
    using assms(4)
    by (auto simp: fix_pdf_therapy_def catch_all_def say_def cpt_free_def
        split: sum.splits bool.splits prod.splits)
qed


text \<open>
  Every \<^verbatim>\<open>return\<close> inside the \<^verbatim>\<open>try\<close> block of either \<^verbatim>\<open>fix_pdf\<close> comes after
  \<^verbatim>\<open>doc.close()\<close>.
\<close>

lemma therapy_handle_closed_on_return:
  "fix_pdf_therapy_body lib pdf_path analysis w = (Inr b, w') \<Longrightarrow>
   open_handles w' = open_handles w"
  by (auto simp: fix_pdf_therapy_body_def run_session_def fitz_save_def fitz_close_def
      os_remove_def os_rename_def set_fs_def Let_def
      split: option.splits prod.splits if_splits)

lemma batch_handle_closed_on_return:
  "fix_pdf_batch_body lib llm pdf_path analysis note_text w = (Inr b, w') \<Longrightarrow>
   open_handles w' = open_handles w"
  by (auto simp: fix_pdf_batch_body_def run_session_def verify_and_save_def say_def
      fitz_save_def fitz_close_def set_fs_def Let_def
      split: option.splits prod.splits if_splits sum.splits list.splits)


section \<open>The claims\<close>

text \<open>
  C1. The claim is that no CPT redaction and no CPT insertion happen when
  \<open>current_code\<close> equals \<open>correct_code\<close>. On the analysis \<open>same_code_analysis\<close>
  (\<open>found = true\<close>, both codes 90834) the single-note tool does nothing and returns
  False, as claimed; the batch tool, whose CPT block has no such guard, redacts the first
  90834 of the page, writes 90834 back, returns True and saves a \<open>_CORRECTED\<close> copy.
\<close>

theorem batch_cpt_fix_lacks_code_guard:
  "fix_pdf_therapy demo_lib ''/notes/a.pdf'' same_code_analysis demo_world = (Inr False, demo_world)
   \<and> fix_pdf_batch demo_lib no_goals_llm ''/notes/a.pdf'' same_code_analysis [] demo_world
     = (Inr True,
        \<lparr>fs = [''/notes/a.pdf'' \<mapsto> demo_note,
               ''/notes/a_CORRECTED.pdf'' \<mapsto> repatched_note ''90834''],
         open_handles = 0,
         events = [Redact CptK 0 (Rect 30 98 130 112),
                   InsertText CptK 0 (35, 108) (Text (PStr ''90834'')) (441 / 50) ''helv'',
                   Print Verifying, Print (Found_dates [''07/02/2025 11:10 am'']),
                   Print Verified_and_saved],
         fs_history = [[''/notes/a.pdf'' \<mapsto> demo_note,
                        ''/notes/a_CORRECTED.pdf'' \<mapsto> repatched_note ''90834'']]\<rparr>)"
  by (simp add: same_code_analysis_def repatched_note_def string_defs step_defs world_defs
      demo_defs upt_rec)

text \<open>
  C2. The claim is that the document handle is closed on every exit path of
  \<^verbatim>\<open>fix_pdf\<close>. Both tools close it before each \<^verbatim>\<open>return\<close> of the \<^verbatim>\<open>try\<close>
  block and not in the \<^verbatim>\<open>except\<close> block. In the batch tool an analysis whose CPT
  finding has no \<open>correct_code\<close> raises KeyError after the redaction; in the single-note
  tool a redaction that fails raises in the library. Each time \<^verbatim>\<open>fix_pdf\<close> returns
  False without having called \<^verbatim>\<open>doc.close()\<close>: the handle is left to the garbage
  collector.
\<close>

theorem handle_left_open_on_exception:
  "open_handles demo_world = 0
   \<and> fix_pdf_batch demo_lib no_goals_llm ''/notes/a.pdf'' no_correct_code_analysis [] demo_world
     = (Inr False,
        \<lparr>fs = [''/notes/a.pdf'' \<mapsto> demo_note],
         open_handles = 1,
         events = [Redact CptK 0 (Rect 30 98 130 112),
                   Print (Error_fixing ''/notes/a.pdf'' (KeyError ''correct_code''))],
         fs_history = []\<rparr>)
   \<and> fix_pdf_therapy failing_lib ''/notes/a.pdf'' wrong_code_analysis demo_world
     = (Inr False,
        \<lparr>fs = [''/notes/a.pdf'' \<mapsto> demo_note],
         open_handles = 1,
         events = [Redact CptK 0 (Rect 30 98 130 112),
                   Print (Error_fixing ''/notes/a.pdf'' LibraryError)],
         fs_history = []\<rparr>)"
  by (simp add: no_correct_code_analysis_def wrong_code_analysis_def string_defs step_defs
      world_defs demo_defs upt_rec)

text \<open>
  C3. The claim is that the single-note tool replaces the source file atomically, so
  that the source path never holds neither the original nor the corrected document. The
  code saves to the temp path, closes the document, removes the source file and then
  renames the temp file: after the removal and before the rename the source path holds
  no file. Here the second of the three file states of a successful run has nothing at
  the source path.
\<close>

theorem source_path_empty_between_remove_and_rename:
  "fst (fix_pdf_therapy demo_lib ''/notes/a.pdf'' wrong_code_analysis demo_world) = Inr True
   \<and> fs demo_world ''/notes/a.pdf'' = Some demo_note
   \<and> (fs_history (snd (fix_pdf_therapy demo_lib ''/notes/a.pdf'' wrong_code_analysis demo_world)) ! 1)
        ''/notes/a.pdf'' = None"
  by (simp add: wrong_code_analysis_def string_defs step_defs world_defs demo_defs upt_rec)

text \<open>
  C3, as amended. When \<^verbatim>\<open>fix_pdf\<close> of the single-note tool returns True, the source
  file existed, the temp path is another path, and the files went through three states:
  the patched document saved at the temp path (the source still holds the original),
  the source removed (the source path holds nothing), the temp file renamed to the source
  path. On completion the source path holds the patched document and the temp path
  holds nothing.
\<close>

theorem replace_by_remove_then_rename:
  assumes "fix_pdf_therapy lib pdf_path analysis w = (Inr True, w')"
  shows "\<exists>pages. fs w pdf_path = Some pages
           \<and> fs w' = (fs w)(pdf_path \<mapsto> patched_doc lib analysis pages, temp_path pdf_path := None)
           \<and> fs_history w' = fs_history w @
                [(fs w)(temp_path pdf_path \<mapsto> patched_doc lib analysis pages),
                 (fs w)(temp_path pdf_path \<mapsto> patched_doc lib analysis pages, pdf_path := None),
                 fs w']
           \<and> temp_path pdf_path \<noteq> pdf_path"
proof -
  from assms have any: "any_found_therapy analysis = Inr True"
    by (auto simp: fix_pdf_therapy_def split: sum.splits bool.splits)
  with assms have body: "fix_pdf_therapy_body lib pdf_path analysis w = (Inr True, w')"
    by (auto simp: fix_pdf_therapy_def catch_all_def split: sum.splits prod.splits)
  then obtain pages where pages: "fs w pdf_path = Some pages"
    by (auto simp: fix_pdf_therapy_body_def split: option.splits)
  define st where "st = snd (fix_pages (fix_page_therapy lib analysis) [0..<length pages]
                 \<lparr>doc = pages, fixed = False, trace = []\<rparr>)"
  define w1 where "w1 = w\<lparr>open_handles := open_handles w + 1, events := events w @ trace st\<rparr>"
  have rs: "run_session (fix_page_therapy lib analysis) pages w
      = (fix_pages (fix_page_therapy lib analysis) [0..<length pages]
                 \<lparr>doc = pages, fixed = False, trace = []\<rparr>, w1)"
    by (simp add: run_session_def w1_def st_def Let_def)
  from body pages rs have ok: "fst (fix_pages (fix_page_therapy lib analysis) [0..<length pages]
                 \<lparr>doc = pages, fixed = False, trace = []\<rparr>) = None" and fx: "fixed st"
    by (auto simp: fix_pdf_therapy_body_def st_def fitz_close_def split: prod.splits option.splits if_splits)
  have d: "doc st = patched_doc lib analysis pages" by (simp add: st_def patched_doc_def)
  from ok have fp: "fix_pages (fix_page_therapy lib analysis) [0..<length pages]
                 \<lparr>doc = pages, fixed = False, trace = []\<rparr> = (None, st)"
    by (simp add: st_def prod_eq_iff)
  from body pages rs fp fx have
    sq: "seq [fitz_save pdf_path (temp_path pdf_path) (doc st), fitz_close,
              os_remove pdf_path, os_rename (temp_path pdf_path) pdf_path] w1 = (None, w')"
    by (auto simp: fix_pdf_therapy_body_def split: prod.splits option.splits)
  then have ne: "temp_path pdf_path \<noteq> pdf_path"
    by (auto simp: fitz_save_def)
  have f1: "fs w1 = fs w" "fs_history w1 = fs_history w" by (simp_all add: w1_def)
  from sq ne pages f1 have
    "fs w' = (fs w)(temp_path pdf_path \<mapsto> doc st, pdf_path := None, pdf_path \<mapsto> doc st, temp_path pdf_path := None)"
    "fs_history w' = fs_history w @
                [(fs w)(temp_path pdf_path \<mapsto> doc st),
                 (fs w)(temp_path pdf_path \<mapsto> doc st, pdf_path := None),
                 (fs w)(temp_path pdf_path \<mapsto> doc st, pdf_path := None, pdf_path \<mapsto> doc st, temp_path pdf_path := None)]"
    by (auto simp: fitz_save_def fitz_close_def os_remove_def os_rename_def set_fs_def
        split: option.splits if_splits)
  moreover have "(fs w)(temp_path pdf_path \<mapsto> doc st, pdf_path := None, pdf_path \<mapsto> doc st, temp_path pdf_path := None)
       = (fs w)(pdf_path \<mapsto> doc st, temp_path pdf_path := None)"
    using ne by (auto simp: fun_eq_iff)
  ultimately show ?thesis using pages ne d by auto
qed

theorem replace_by_remove_then_rename_witness:
  "\<exists>pages. fs demo_world ''/notes/a.pdf'' = Some pages
     \<and> fs (snd (fix_pdf_therapy demo_lib ''/notes/a.pdf'' wrong_code_analysis demo_world))
        = (fs demo_world)(''/notes/a.pdf'' \<mapsto> patched_doc demo_lib wrong_code_analysis pages,
                          temp_path ''/notes/a.pdf'' := None)"
proof -
  have "fst (fix_pdf_therapy demo_lib ''/notes/a.pdf'' wrong_code_analysis demo_world) = Inr True"
    by (simp add: wrong_code_analysis_def string_defs step_defs world_defs demo_defs upt_rec)
  then have run: "fix_pdf_therapy demo_lib ''/notes/a.pdf'' wrong_code_analysis demo_world
      = (Inr True, snd (fix_pdf_therapy demo_lib ''/notes/a.pdf'' wrong_code_analysis demo_world))"
    by (simp add: prod_eq_iff)
  from replace_by_remove_then_rename [OF run] show ?thesis by blast
qed






text \<open>
  C5. The claim is that \<^verbatim>\<open>analyze_with_ai\<close> never throws when the answer is not JSON.
  When the answer has a brace-delimited fragment that is not JSON either, the second
  \<^verbatim>\<open>json.loads\<close> raises JSONDecodeError inside the \<^verbatim>\<open>except\<close> block, and the
  exception leaves \<^verbatim>\<open>analyze_with_ai\<close>; the batch driver \<^verbatim>\<open>process_pdf\<close> does not
  catch it either.
\<close>

theorem fragment_parse_error_escapes:
  "analyze_with_ai demo_json_loads ''Result: {not json}'' ''a.pdf'' = Inl JSONDecodeError
   \<and> process_pdf demo_lib no_goals_llm demo_json_loads ''/notes/a.pdf'' ''a.pdf'' (Inr [])
        ''Result: {not json}'' demo_world = (Inl JSONDecodeError, demo_world)"
  by (simp add: analyze_with_ai_def process_pdf_def demo_json_loads_def string_defs)

text \<open>When exactly the call raises, for any \<^verbatim>\<open>json.loads\<close>.\<close>

lemma analyze_with_ai_raises_iff:
  "analyze_with_ai json_loads content filename = Inl e \<longleftrightarrow>
     e = JSONDecodeError \<and> json_loads content = None
     \<and> (\<exists>fragment. search_braces content = Some fragment \<and> json_loads fragment = None)"
  by (auto simp: analyze_with_ai_def split: option.splits)

text \<open>
  C7. When every finding of the analysis has \<open>found = false\<close> (the flag is false, or the
  finding is absent), \<^verbatim>\<open>fix_pdf\<close> of either tool returns False and leaves the world as
  it was: no file is written, no document opened, nothing printed. The batch driver
  \<^verbatim>\<open>process_pdf\<close> then does not call \<^verbatim>\<open>fix_pdf\<close> at all and records
  \<open>corrections_made = False\<close> in the result.
\<close>

theorem no_finding_no_output:
  assumes "issue_found analysis ''date_issue'' = Inr False"
    and "issue_found analysis ''cpt_issue'' = Inr False"
    and "issue_found analysis ''goals_issue'' = Inr False"
    and "issue_found analysis ''supervision_issue'' = Inr False"
  shows "fix_pdf_batch lib llm pdf_path analysis note_text w = (Inr False, w)
     \<and> fix_pdf_therapy lib pdf_path analysis w = (Inr False, w)
     \<and> (analyze_with_ai json_loads content filename = Inr analysis \<longrightarrow>
          (\<exists>a'. process_pdf lib llm json_loads pdf_path filename (Inr note_text) content w
                  = (Inr (Analysis a'), w)
              \<and> corrections_made (Analysis a') = Inr (PBool False)))"
proof -
  have b: "fix_pdf_batch lib llm pdf_path analysis note_text w = (Inr False, w)"
    using assms by (simp add: fix_pdf_batch_def any_found_batch_def ebind_def)
  have t: "fix_pdf_therapy lib pdf_path analysis w = (Inr False, w)"
    using assms by (simp add: fix_pdf_therapy_def any_found_therapy_def ebind_def)
  have p: "\<exists>a'. process_pdf lib llm json_loads pdf_path filename (Inr note_text) content w
                  = (Inr (Analysis a'), w)
              \<and> corrections_made (Analysis a') = Inr (PBool False)"
    if a: "analyze_with_ai json_loads content filename = Inr analysis"
  proof -
    obtain d where d: "analysis = PDict d" using assms(1) issue_found_dict by blast
    have n: "needs_fixing_batch analysis = Inr False"
      using assms goals_need_fixing_not_found [OF assms(3)]
      by (simp add: needs_fixing_batch_def ebind_def)
    have "process_pdf lib llm json_loads pdf_path filename (Inr note_text) content w
            = (Inr (Analysis (PDict (assoc_set ''corrections_made'' (PBool False) d))), w)"
      using a n by (simp add: process_pdf_def d)
    moreover have "corrections_made (Analysis (PDict (assoc_set ''corrections_made'' (PBool False) d)))
            = Inr (PBool False)"
      by (rule corrections_made_set [of "PDict d"]) simp
    ultimately show ?thesis by blast
  qed
  from b t p show ?thesis by blast
qed

theorem no_finding_no_output_witness:
  "fix_pdf_batch demo_lib no_goals_llm ''/notes/a.pdf'' clean_analysis [] demo_world
     = (Inr False, demo_world)
   \<and> fix_pdf_therapy demo_lib ''/notes/a.pdf'' clean_analysis demo_world = (Inr False, demo_world)
   \<and> (\<exists>a'. process_pdf demo_lib no_goals_llm (\<lambda>s. Some clean_analysis) ''/notes/a.pdf'' ''a.pdf''
              (Inr []) [] demo_world = (Inr (Analysis a'), demo_world)
           \<and> corrections_made (Analysis a') = Inr (PBool False))"
proof -
  have f: "issue_found clean_analysis ''date_issue'' = Inr False"
    "issue_found clean_analysis ''cpt_issue'' = Inr False"
    "issue_found clean_analysis ''goals_issue'' = Inr False"
    "issue_found clean_analysis ''supervision_issue'' = Inr False"
    by (simp_all add: clean_analysis_def issue_found_def ebind_def)
  have a: "analyze_with_ai (\<lambda>s. Some clean_analysis) [] ''a.pdf'' = Inr clean_analysis"
    by (simp add: analyze_with_ai_def)
  show ?thesis
    using no_finding_no_output [OF f, of demo_lib no_goals_llm "''/notes/a.pdf''" "[]" demo_world
        "\<lambda>s. Some clean_analysis" "[]" "''a.pdf''"] a
    by simp
qed








end
